theory Spec2Isabelle
  imports Main "HOL-Library.Word" "HOL-Library.AList"
begin

unbundle bit_operations_syntax

section \<open>Bytes, slices and the struct module\<close>

text \<open>
  The decoder of \<^verbatim>\<open>src/Tools/fo4_esp_parser.py\<close> works on a Python \<^verbatim>\<open>bytes\<close> object.
  A byte is an 8-bit word, a \<^verbatim>\<open>bytes\<close> value a list of them, a Python integer an
  \<open>int\<close> or, where the source can only produce a non-negative value, a \<open>nat\<close>.
  The two exceptions the decoder can let escape are values of \<open>error\<close>.
\<close>

type_synonym byte = "8 word"

datatype error = StructError | AssertionError

text \<open>
  \<^verbatim>\<open>xs[a:b]\<close>: a negative index counts from the end, both indices are clamped
  to the sequence, and the slice is empty when the bounds cross. Slicing never raises.
\<close>

definition clamp_index :: "nat \<Rightarrow> int \<Rightarrow> nat" where
  "clamp_index n i = (if i < 0 then nat (max (i + int n) 0) else min (nat i) n)"

definition py_slice :: "'a list \<Rightarrow> int \<Rightarrow> int \<Rightarrow> 'a list" where
  "py_slice xs a b =
     take (clamp_index (length xs) b - clamp_index (length xs) a)
          (drop (clamp_index (length xs) a) xs)"

text \<open>Little-endian unsigned value of a byte string (\<^verbatim>\<open><B\<close>, \<^verbatim>\<open><H\<close>, \<^verbatim>\<open><I\<close>).\<close>

fun le_uint :: "byte list \<Rightarrow> nat" where
  "le_uint [] = 0"
| "le_uint (b # bs) = unat b + 256 * le_uint bs"

text \<open>Two's complement reading of a 32-bit value (\<^verbatim>\<open><i\<close>).\<close>

definition to_int32 :: "nat \<Rightarrow> int" where
  "to_int32 u = (if u < 2 ^ 31 then int u else int u - 2 ^ 32)"

text \<open>
  \<^verbatim>\<open>struct.unpack(fmt, buf)\<close> for a format of \<open>sz\<close> bytes raises \<^verbatim>\<open>struct.error\<close>
  unless the buffer has exactly \<open>sz\<close> bytes.
\<close>

definition unpack :: "nat \<Rightarrow> byte list \<Rightarrow> error + byte list" where
  "unpack sz buf = (if length buf = sz then Inr buf else Inl StructError)"

text \<open>
  \<^verbatim>\<open>struct.unpack_from(fmt, buf, offset)\<close> for a format of \<open>sz\<close> bytes: a negative
  offset counts from the end and must leave room for \<open>sz\<close> bytes before the end; any
  request that does not fit in the buffer raises \<^verbatim>\<open>struct.error\<close>.
\<close>

definition unpack_from :: "nat \<Rightarrow> byte list \<Rightarrow> int \<Rightarrow> error + byte list" where
  "unpack_from sz buf off =
     (if off < 0 then
        (if off + int sz > 0 then Inl StructError
         else if off + int (length buf) < 0 then Inl StructError
         else Inr (take sz (drop (nat (off + int (length buf))) buf)))
      else if int (length buf) - off < int sz then Inl StructError
      else Inr (take sz (drop (nat off) buf)))"

subsection \<open>Text of signatures\<close>

text \<open>
  \<^verbatim>\<open>raw.decode('ascii')\<close> succeeds when every byte is below 128; \<^verbatim>\<open>raw.hex()\<close> writes
  two lower-case hexadecimal digits per byte.
\<close>

definition hex_digit_lower :: "nat \<Rightarrow> char" where
  "hex_digit_lower d = (''0123456789abcdef'') ! (d mod 16)"

definition hex_digit_upper :: "nat \<Rightarrow> char" where
  "hex_digit_upper d = (''0123456789ABCDEF'') ! (d mod 16)"

definition bytes_hex :: "byte list \<Rightarrow> string" where
  "bytes_hex bs = concat (map (\<lambda>b. [hex_digit_lower (unat b div 16), hex_digit_lower (unat b mod 16)]) bs)"

definition decode_ascii :: "byte list \<Rightarrow> string option" where
  "decode_ascii bs = (if \<forall>b \<in> set bs. unat b < 128 then Some (map (\<lambda>b. char_of (unat b)) bs) else None)"

text \<open>The idiom \<^verbatim>\<open>try: raw.decode('ascii') except: raw.hex()\<close> of \<^verbatim>\<open>read_sig\<close> and of the group label.\<close>

definition sig_text :: "byte list \<Rightarrow> string" where
  "sig_text raw = (case decode_ascii raw of Some s \<Rightarrow> s | None \<Rightarrow> bytes_hex raw)"

section \<open>BinaryReader\<close>

record reader =
  data :: "byte list"
  pos :: int

definition BinaryReader :: "byte list \<Rightarrow> reader" where
  "BinaryReader d = \<lparr>data = d, pos = 0\<rparr>"

definition read :: "nat \<Rightarrow> reader \<Rightarrow> byte list \<times> reader" where
  "read n r = (py_slice (data r) (pos r) (pos r + int n), r\<lparr>pos := pos r + int n\<rparr>)"

definition read_uint8 :: "reader \<Rightarrow> error + nat \<times> reader" where
  "read_uint8 r = (case unpack_from 1 (data r) (pos r) of
       Inl e \<Rightarrow> Inl e
     | Inr bs \<Rightarrow> Inr (le_uint bs, r\<lparr>pos := pos r + 1\<rparr>))"

definition read_uint16 :: "reader \<Rightarrow> error + nat \<times> reader" where
  "read_uint16 r = (case unpack_from 2 (data r) (pos r) of
       Inl e \<Rightarrow> Inl e
     | Inr bs \<Rightarrow> Inr (le_uint bs, r\<lparr>pos := pos r + 2\<rparr>))"

definition read_uint32 :: "reader \<Rightarrow> error + nat \<times> reader" where
  "read_uint32 r = (case unpack_from 4 (data r) (pos r) of
       Inl e \<Rightarrow> Inl e
     | Inr bs \<Rightarrow> Inr (le_uint bs, r\<lparr>pos := pos r + 4\<rparr>))"

definition read_int32 :: "reader \<Rightarrow> error + int \<times> reader" where
  "read_int32 r = (case unpack_from 4 (data r) (pos r) of
       Inl e \<Rightarrow> Inl e
     | Inr bs \<Rightarrow> Inr (to_int32 (le_uint bs), r\<lparr>pos := pos r + 4\<rparr>))"

text \<open>
  \<^verbatim>\<open>read_float\<close> is kept as the four bytes that \<^verbatim>\<open><f\<close> would interpret: the value
  of the float plays no role in the decoder, only whether the read succeeds.
\<close>

definition read_float :: "reader \<Rightarrow> error + byte list \<times> reader" where
  "read_float r = (case unpack_from 4 (data r) (pos r) of
       Inl e \<Rightarrow> Inl e
     | Inr bs \<Rightarrow> Inr (bs, r\<lparr>pos := pos r + 4\<rparr>))"

text \<open>
  \<^verbatim>\<open>read_string\<close> cuts the slice at the first null byte and decodes it as UTF-8, then
  CP-1252, then as a hex dump; the last never raises, so the text decoder is a total
  function \<open>txt\<close>, taken as a parameter.
\<close>

definition read_string :: "(byte list \<Rightarrow> string) \<Rightarrow> nat \<Rightarrow> reader \<Rightarrow> string \<times> reader" where
  "read_string txt n r =
     (txt (takeWhile (\<lambda>b. b \<noteq> 0) (py_slice (data r) (pos r) (pos r + int n))),
      r\<lparr>pos := pos r + int n\<rparr>)"

definition read_sig :: "reader \<Rightarrow> string \<times> reader" where
  "read_sig r = (sig_text (py_slice (data r) (pos r) (pos r + 4)), r\<lparr>pos := pos r + 4\<rparr>)"

definition remaining :: "reader \<Rightarrow> int" where
  "remaining r = int (length (data r)) - pos r"

definition has_data :: "reader \<Rightarrow> bool" where
  "has_data r = (pos r < int (length (data r)))"

definition peek_sig :: "reader \<Rightarrow> string option" where
  "peek_sig r = (if pos r + 4 > int (length (data r)) then None
                 else decode_ascii (py_slice (data r) (pos r) (pos r + 4)))"

definition skip :: "int \<Rightarrow> reader \<Rightarrow> reader" where
  "skip n r = r\<lparr>pos := pos r + n\<rparr>"

section \<open>ESPRecord\<close>

text \<open>
  The record object of the source. The fields \<^verbatim>\<open>editor_id\<close>, \<^verbatim>\<open>full_name\<close> and
  \<^verbatim>\<open>raw_data\<close> hold decoded text and a copy of the subrecords; their assignments
  cannot raise (each decode is wrapped in \<^verbatim>\<open>try\<close>/\<^verbatim>\<open>except\<close> ending in \<^verbatim>\<open>hex()\<close>) and
  they are left out. \<^verbatim>\<open>type\<close> and \<^verbatim>\<open>keywords\<close> are named \<open>rec_type\<close> and \<open>rec_keywords\<close>.
\<close>

record esp_record =
  rec_type :: string
  data_size :: nat
  flags :: nat
  form_id :: nat
  timestamp :: nat
  version_info :: nat
  subrecords :: "(string \<times> byte list) list"
  is_compressed :: bool
  rec_keywords :: "nat list"

text \<open>The values set by \<^verbatim>\<open>ESPRecord.__init__\<close>.\<close>

definition ESPRecord :: esp_record where
  "ESPRecord =
     \<lparr>rec_type = [], data_size = 0, flags = 0, form_id = 0, timestamp = 0, version_info = 0,
      subrecords = [], is_compressed = False, rec_keywords = []\<rparr>"

definition FLAG_ESM :: nat where "FLAG_ESM = 0x00000001"
definition FLAG_LOCALIZED :: nat where "FLAG_LOCALIZED = 0x00000040"
definition FLAG_ESL :: nat where "FLAG_ESL = 0x00000200"
definition FLAG_COMPRESSED :: nat where "FLAG_COMPRESSED = 0x00040000"

text \<open>
  The \<^verbatim>\<open>KWDA\<close> branch of \<^verbatim>\<open>parse_subrecords\<close>:
  \<^verbatim>\<open>for i in range(0, len(sub_data), 4): if i + 4 <= len(sub_data): append(unpack('<I', sub_data[i:i+4]))\<close>.
\<close>

definition kwda_keywords :: "byte list \<Rightarrow> nat list" where
  "kwda_keywords sub_data =
     map (\<lambda>i. le_uint (py_slice sub_data (int i) (int i + 4)))
         (filter (\<lambda>i. i + 4 \<le> length sub_data)
                 (map (\<lambda>k. 4 * k) [0 ..< (length sub_data + 3) div 4]))"

text \<open>
  The loop of \<^verbatim>\<open>parse_subrecords\<close>, with its local \<^verbatim>\<open>keyword_count\<close> as first
  argument. \<^verbatim>\<open>struct.unpack('<I', sub_data)\<close> in the \<^verbatim>\<open>KSIZ\<close> branch is guarded by
  \<^verbatim>\<open>len(sub_data) >= 4\<close> only, so it raises on a longer payload. The \<^verbatim>\<open>EDID\<close> and
  \<^verbatim>\<open>FULL\<close> branches only assign text.
\<close>

fun parse_subrecords_loop ::
  "nat \<Rightarrow> esp_record \<Rightarrow> (string \<times> byte list) list \<Rightarrow> error + nat \<times> esp_record" where
  "parse_subrecords_loop keyword_count r [] = Inr (keyword_count, r)"
| "parse_subrecords_loop keyword_count r ((sub_type, sub_data) # rest) =
     (if sub_type = ''EDID'' then parse_subrecords_loop keyword_count r rest
      else if sub_type = ''FULL'' then parse_subrecords_loop keyword_count r rest
      else if sub_type = ''KSIZ'' then
        (if length sub_data \<ge> 4 then
           (case unpack 4 sub_data of
              Inl e \<Rightarrow> Inl e
            | Inr bs \<Rightarrow> parse_subrecords_loop (le_uint bs) r rest)
         else parse_subrecords_loop keyword_count r rest)
      else if sub_type = ''KWDA'' then
        parse_subrecords_loop keyword_count (r\<lparr>rec_keywords := kwda_keywords sub_data\<rparr>) rest
      else parse_subrecords_loop keyword_count r rest)"

definition parse_subrecords :: "esp_record \<Rightarrow> error + esp_record" where
  "parse_subrecords r =
     (case parse_subrecords_loop 0 r (subrecords r) of
        Inl e \<Rightarrow> Inl e
      | Inr (keyword_count, r') \<Rightarrow> Inr r')"

section \<open>ESPParser\<close>

text \<open>
  The parser object. \<^verbatim>\<open>records\<close> and \<^verbatim>\<open>type_counts\<close> are \<^verbatim>\<open>defaultdict\<close>s and
  \<^verbatim>\<open>records_by_formid\<close> a \<^verbatim>\<open>dict\<close>: association lists in insertion order.
  \<^verbatim>\<open>version\<close> keeps the four bytes of the float. The free-text fields \<^verbatim>\<open>author\<close> and
  \<^verbatim>\<open>description\<close> are left out: their decoding cannot raise.
\<close>

record parser =
  filename :: string
  version :: "byte list"
  num_records :: int
  next_object_id :: nat
  masters :: "string list"
  is_esm :: bool
  is_esl :: bool
  is_localized :: bool
  records :: "(string \<times> esp_record list) list"
  records_by_formid :: "(nat \<times> esp_record) list"
  group_count :: nat
  record_count :: nat
  compressed_count :: nat
  type_counts :: "(string \<times> nat) list"

definition ESPParser :: "string \<Rightarrow> parser" where
  "ESPParser name =
     \<lparr>filename = name, version = [], num_records = 0, next_object_id = 0, masters = [],
      is_esm = False, is_esl = False, is_localized = False,
      records = [], records_by_formid = [],
      group_count = 0, record_count = 0, compressed_count = 0, type_counts = []\<rparr>"

text \<open>
  Two library functions are parameters of the decoder: \<^verbatim>\<open>zlib.decompress(data, bufsize=n)\<close>,
  which returns the inflated bytes or raises \<^verbatim>\<open>zlib.error\<close> (\<open>None\<close>), and
  \<^verbatim>\<open>bytes.decode('utf-8', errors='replace')\<close>, which is total.
\<close>

record codecs =
  zlib_decompress :: "byte list \<Rightarrow> nat \<Rightarrow> byte list option"
  decode_utf8 :: "byte list \<Rightarrow> string"

text \<open>\<^verbatim>\<open>sub_data.rstrip(b'\x00')\<close>\<close>

definition rstrip0 :: "byte list \<Rightarrow> byte list" where
  "rstrip0 bs = rev (dropWhile (\<lambda>b. b = 0) (rev bs))"

text \<open>Sequencing of calls that may raise.\<close>

fun bindE :: "error + 'a \<Rightarrow> ('a \<Rightarrow> error + 'b) \<Rightarrow> error + 'b" where
  "bindE (Inl e) f = Inl e"
| "bindE (Inr x) f = f x"

subsection \<open>The header record\<close>

text \<open>
  The subrecord loop of \<^verbatim>\<open>_parse_tes4\<close>. Every iteration reads a 16-bit size with
  \<^verbatim>\<open>unpack_from\<close>, which raises at the end of the buffer, so the loop ends.
\<close>

function tes4_loop :: "codecs \<Rightarrow> int \<Rightarrow> reader \<Rightarrow> parser \<Rightarrow> error + reader \<times> parser" where
  "tes4_loop cx end_pos rd ps =
     (if pos rd < end_pos then
        (case read_uint16 (snd (read_sig rd)) of
           Inl e \<Rightarrow> Inl e
         | Inr (sub_size, rd2) \<Rightarrow>
             (let sub_type = fst (read_sig rd);
                  sub_data = fst (read sub_size rd2);
                  rd3 = snd (read sub_size rd2)
              in if sub_type = ''HEDR'' then
                   (case unpack 4 (py_slice sub_data 0 4) of
                      Inl e \<Rightarrow> Inl e
                    | Inr v \<Rightarrow>
                   (case unpack 4 (py_slice sub_data 4 8) of
                      Inl e \<Rightarrow> Inl e
                    | Inr n \<Rightarrow>
                   (case unpack 4 (py_slice sub_data 8 12) of
                      Inl e \<Rightarrow> Inl e
                    | Inr i \<Rightarrow>
                        tes4_loop cx end_pos rd3
                          (ps\<lparr>version := v, num_records := to_int32 (le_uint n),
                              next_object_id := le_uint i\<rparr>))))
                 else if sub_type = ''MAST'' then
                   tes4_loop cx end_pos rd3
                     (ps\<lparr>masters := masters ps @ [decode_utf8 cx (rstrip0 sub_data)]\<rparr>)
                 else tes4_loop cx end_pos rd3 ps))
      else Inr (rd, ps))"
  by pat_completeness auto

termination tes4_loop
  apply (relation "measure (\<lambda>(cx, end_pos, rd, ps). nat (int (length (data rd)) - pos rd))")
     apply simp
    apply (auto simp: read_uint16_def unpack_from_def read_sig_def read_def split: if_splits)
  done

definition parse_tes4 :: "codecs \<Rightarrow> reader \<Rightarrow> parser \<Rightarrow> error + reader \<times> parser" where
  "parse_tes4 cx rd ps =
     (let sig = fst (read_sig rd); rd1 = snd (read_sig rd)
      in if sig \<noteq> ''TES4'' then Inl AssertionError
         else
           bindE (read_uint32 rd1) (\<lambda>(data_size, rd2).
           bindE (read_uint32 rd2) (\<lambda>(flags, rd3).
           bindE (read_uint32 rd3) (\<lambda>(form_id, rd4).
           bindE (read_uint32 rd4) (\<lambda>(timestamp, rd5).
           bindE (read_uint32 rd5) (\<lambda>(version_info, rd6).
             tes4_loop cx (pos rd6 + int data_size) rd6
               (ps\<lparr>is_esm := (flags AND FLAG_ESM \<noteq> 0),
                   is_esl := (flags AND FLAG_ESL \<noteq> 0),
                   is_localized := (flags AND FLAG_LOCALIZED \<noteq> 0)\<rparr>)))))))"

subsection \<open>Records\<close>

text \<open>
  The subrecord loop of \<^verbatim>\<open>_parse_record\<close> over \<^verbatim>\<open>sub_reader\<close>; \<open>xxxx_size\<close> is the
  pending 32-bit override and \<open>subs\<close> the list \<^verbatim>\<open>rec.subrecords\<close> built so far.
  \<^verbatim>\<open>struct.unpack('<I', sub_reader.read(4))\<close> raises when fewer than four bytes are left.
\<close>

function split_loop ::
  "nat option \<Rightarrow> reader \<Rightarrow> (string \<times> byte list) list \<Rightarrow> error + (string \<times> byte list) list" where
  "split_loop xxxx_size sr subs =
     (if has_data sr \<and> remaining sr \<ge> 6 then
        (case read_uint16 (snd (read_sig sr)) of
           Inl e \<Rightarrow> Inl e
         | Inr (sub_size, sr2) \<Rightarrow>
             (let sub_type = fst (read_sig sr)
              in if sub_type = ''XXXX'' then
                   (case unpack 4 (fst (read 4 sr2)) of
                      Inl e \<Rightarrow> Inl e
                    | Inr bs \<Rightarrow> split_loop (Some (le_uint bs)) (snd (read 4 sr2)) subs)
                 else
                   (let sub_size' = (case xxxx_size of Some x \<Rightarrow> x | None \<Rightarrow> sub_size)
                    in if int sub_size' > remaining sr2 then Inr subs
                       else split_loop None (snd (read sub_size' sr2))
                              (subs @ [(sub_type, fst (read sub_size' sr2))]))))
      else Inr subs)"
  by pat_completeness auto
termination
  apply (relation "measure (\<lambda>(x, sr, subs). nat (remaining sr))")
    apply simp
   apply (auto simp: read_uint16_def unpack_from_def read_sig_def read_def remaining_def
               split: if_splits)
  done

text \<open>The tail of \<^verbatim>\<open>_parse_record\<close>: split the payload, interpret it, store the record.\<close>

definition store_record ::
  "esp_record \<Rightarrow> byte list \<Rightarrow> reader \<Rightarrow> parser \<Rightarrow> error + esp_record option \<times> reader \<times> parser" where
  "store_record r record_data rd ps =
     bindE (split_loop None (BinaryReader record_data) (subrecords r)) (\<lambda>subs.
     bindE (parse_subrecords (r\<lparr>subrecords := subs\<rparr>)) (\<lambda>r'.
       Inr (Some r', rd,
            ps\<lparr>records := AList.map_default (rec_type r') [r'] (\<lambda>l. l @ [r']) (records ps),
                records_by_formid := AList.update (form_id r') r' (records_by_formid ps)\<rparr>)))"

text \<open>
  \<^verbatim>\<open>_parse_record\<close>. The result carries the value the method returns (\<^verbatim>\<open>None\<close> or the
  record), the reader and the parser object.
\<close>

definition parse_record ::
  "codecs \<Rightarrow> reader \<Rightarrow> parser \<Rightarrow> error + esp_record option \<times> reader \<times> parser" where
  "parse_record cx rd ps =
     (if remaining rd < 24 then Inr (None, skip (remaining rd) rd, ps)
      else
        (let sig = fst (read_sig rd); rd1 = snd (read_sig rd)
         in
           bindE (read_uint32 rd1) (\<lambda>(data_size, rd2).
           bindE (read_uint32 rd2) (\<lambda>(flags, rd3).
           bindE (read_uint32 rd3) (\<lambda>(form_id, rd4).
           bindE (read_uint32 rd4) (\<lambda>(timestamp, rd5).
           bindE (read_uint32 rd5) (\<lambda>(version_info, rd6).
             (let ps1 = ps\<lparr>record_count := record_count ps + 1,
                            type_counts := AList.map_default sig 1 (\<lambda>c. c + 1) (type_counts ps)\<rparr>
              in if int data_size > remaining rd6 then Inr (None, skip (remaining rd6) rd6, ps1)
                 else
                   (let record_data = fst (read data_size rd6);
                        rd7 = snd (read data_size rd6);
                        r = \<lparr>rec_type = sig, data_size = data_size, flags = flags,
                             form_id = form_id, timestamp = timestamp,
                             version_info = version_info, subrecords = [],
                             is_compressed = (flags AND FLAG_COMPRESSED \<noteq> 0),
                             rec_keywords = []\<rparr>
                    in if is_compressed r \<and> length record_data \<ge> 4 then
                         (let ps2 = ps1\<lparr>compressed_count := compressed_count ps1 + 1\<rparr>;
                              decompressed_size = le_uint (py_slice record_data 0 4)
                          in case zlib_decompress cx (drop 4 record_data) decompressed_size of
                               None \<Rightarrow> Inr (Some r, rd7, ps2)
                             | Some inflated \<Rightarrow> store_record r inflated rd7 ps2)
                       else store_record r record_data rd7 ps1)))))))))"

subsection \<open>Groups\<close>

text \<open>\<^verbatim>\<open>filter_types and group_label not in filter_types\<close>: \<^verbatim>\<open>None\<close> and the empty set are falsy.\<close>

definition filtered_out :: "string set option \<Rightarrow> string \<Rightarrow> bool" where
  "filtered_out filter_types group_label =
     (case filter_types of None \<Rightarrow> False | Some s \<Rightarrow> s \<noteq> {} \<and> group_label \<notin> s)"

text \<open>The 24-byte header of \<^verbatim>\<open>_parse_group\<close>: label, type, content size, reader after it.\<close>

definition group_header :: "reader \<Rightarrow> error + (byte list \<times> int \<times> int \<times> reader)" where
  "group_header rd =
     (let sig = fst (read_sig rd); rd1 = snd (read_sig rd)
      in if sig \<noteq> ''GRUP'' then Inl AssertionError
         else
           bindE (read_uint32 rd1) (\<lambda>(group_size, rd2).
           (let label_raw = fst (read 4 rd2); rd3 = snd (read 4 rd2)
            in bindE (read_int32 rd3) (\<lambda>(group_type, rd4).
               bindE (read_uint32 rd4) (\<lambda>(timestamp, rd5).
               bindE (read_uint32 rd5) (\<lambda>(version_info, rd6).
                 Inr (label_raw, group_type, int group_size - 24, rd6)))))))"

text \<open>
  \<^verbatim>\<open>_parse_group\<close> and its content loop. Skipping a filtered group of declared size
  below 24 moves the cursor backwards, so the walk need not end: both functions take
  fuel, and \<open>None\<close> is the walk that has not returned within it.
\<close>

fun parse_group ::
      "codecs \<Rightarrow> nat \<Rightarrow> string set option \<Rightarrow> reader \<Rightarrow> parser \<Rightarrow> (error + reader \<times> parser) option"
  and group_loop ::
      "codecs \<Rightarrow> nat \<Rightarrow> string set option \<Rightarrow> int \<Rightarrow> reader \<Rightarrow> parser \<Rightarrow> (error + reader \<times> parser) option"
where
  "parse_group cx 0 filter_types rd ps = None"
| "parse_group cx (Suc fuel) filter_types rd ps =
     (case group_header rd of
        Inl e \<Rightarrow> Some (Inl e)
      | Inr (label_raw, group_type, content_size, rd6) \<Rightarrow>
          (let ps1 = ps\<lparr>group_count := group_count ps + 1\<rparr>;
               end_pos = pos rd6 + content_size
           in if group_type = 0 \<and> filtered_out filter_types (sig_text label_raw)
              then Some (Inr (skip content_size rd6, ps1))
              else group_loop cx fuel filter_types end_pos rd6 ps1))"
| "group_loop cx 0 filter_types end_pos rd ps = None"
| "group_loop cx (Suc fuel) filter_types end_pos rd ps =
     (if pos rd < end_pos then
        (if remaining rd < 4 then Some (Inr (rd, ps))
         else if peek_sig rd = Some ''GRUP'' then
           (case parse_group cx fuel filter_types rd ps of
              None \<Rightarrow> None
            | Some (Inl e) \<Rightarrow> Some (Inl e)
            | Some (Inr (rd', ps')) \<Rightarrow> group_loop cx fuel filter_types end_pos rd' ps')
         else
           (case parse_record cx rd ps of
              Inl e \<Rightarrow> Some (Inl e)
            | Inr (ret, rd', ps') \<Rightarrow> group_loop cx fuel filter_types end_pos rd' ps'))
      else Some (Inr (rd, ps)))"

subsection \<open>The whole file\<close>

fun parse_loop ::
  "codecs \<Rightarrow> nat \<Rightarrow> string set option \<Rightarrow> reader \<Rightarrow> parser \<Rightarrow> (error + reader \<times> parser) option" where
  "parse_loop cx 0 filter_types rd ps = None"
| "parse_loop cx (Suc fuel) filter_types rd ps =
     (if has_data rd \<and> remaining rd \<ge> 4 then
        (if peek_sig rd = Some ''GRUP'' then
           (case parse_group cx fuel filter_types rd ps of
              None \<Rightarrow> None
            | Some (Inl e) \<Rightarrow> Some (Inl e)
            | Some (Inr (rd', ps')) \<Rightarrow> parse_loop cx fuel filter_types rd' ps')
         else
           (case parse_record cx rd ps of
              Inl e \<Rightarrow> Some (Inl e)
            | Inr (ret, rd', ps') \<Rightarrow> parse_loop cx fuel filter_types rd' ps'))
      else Some (Inr (rd, ps)))"

text \<open>
  \<^verbatim>\<open>ESPParser(filepath).parse(filter_types)\<close> on a file of the given name and content:
  the parser object after the call, an escaped exception, or \<open>None\<close> (no return within
  the fuel).
\<close>

definition parse ::
  "codecs \<Rightarrow> nat \<Rightarrow> string \<Rightarrow> byte list \<Rightarrow> string set option \<Rightarrow> (error + parser) option" where
  "parse cx fuel name file filter_types =
     (case parse_tes4 cx (BinaryReader file) (ESPParser name) of
        Inl e \<Rightarrow> Some (Inl e)
      | Inr (rd, ps) \<Rightarrow>
          (case parse_loop cx fuel filter_types rd ps of
             None \<Rightarrow> None
           | Some (Inl e) \<Rightarrow> Some (Inl e)
           | Some (Inr (rd', ps')) \<Rightarrow> Some (Inr ps')))"

subsection \<open>Identity resolution\<close>

text \<open>\<^verbatim>\<open>format(n, 'X')\<close> and \<^verbatim>\<open>f'{n:0wX}'\<close> for a non-negative \<open>n\<close>.\<close>

fun hex_upper :: "nat \<Rightarrow> string" where
  "hex_upper n =
     (if n < 16 then [hex_digit_upper n]
      else hex_upper (n div 16) @ [hex_digit_upper (n mod 16)])"

definition format_0X :: "nat \<Rightarrow> nat \<Rightarrow> string" where
  "format_0X w n = replicate (w - length (hex_upper n)) (CHR ''0'') @ hex_upper n"

definition resolve_formid :: "parser \<Rightarrow> nat \<Rightarrow> string \<times> string" where
  "resolve_formid ps fid =
     (let master_idx = (drop_bit 24 fid) AND 0xFF;
          local_id = fid AND 0x00FFFFFF
      in if master_idx < length (masters ps) then (masters ps ! master_idx, format_0X 6 local_id)
         else if master_idx = length (masters ps) then (filename ps, format_0X 6 local_id)
         else (''UNKNOWN_MASTER_'' @ format_0X 2 master_idx, format_0X 6 local_id))"

subsection \<open>Size of the by-type index\<close>


section \<open>Example files\<close>

text \<open>
  Codecs for the examples: a \<^verbatim>\<open>zlib.decompress\<close> that rejects its input, as zlib does for the
  stream \<^verbatim>\<open>FF FF\<close> used below, and a text decoder that is exact on ASCII.
\<close>

definition no_inflate :: codecs where
  "no_inflate = \<lparr>zlib_decompress = (\<lambda>d n. None), decode_utf8 = map (\<lambda>b. char_of (unat b))\<rparr>"

text \<open>
  A header record without fields, then a top-level group \<^verbatim>\<open>WEAP\<close> holding one record \<^verbatim>\<open>WEAP\<close>
  with identity \<^verbatim>\<open>0x01000001\<close>, the compression flag \<^verbatim>\<open>0x00040000\<close> and a six-byte payload: the size
  hint 16 and the two bytes \<^verbatim>\<open>FF FF\<close>, which are not a zlib stream.
\<close>

definition file_bad_deflate :: "byte list" where
  "file_bad_deflate =
     [0x54, 0x45, 0x53, 0x34, 0x00, 0x00, 0x00, 0x00, 0x00, 0x00, 0x00, 0x00, 0x00, 0x00, 0x00, 0x00,
      0x00, 0x00, 0x00, 0x00, 0x00, 0x00, 0x00, 0x00, 0x47, 0x52, 0x55, 0x50, 0x36, 0x00, 0x00, 0x00,
      0x57, 0x45, 0x41, 0x50, 0x00, 0x00, 0x00, 0x00, 0x00, 0x00, 0x00, 0x00, 0x00, 0x00, 0x00, 0x00,
      0x57, 0x45, 0x41, 0x50, 0x06, 0x00, 0x00, 0x00, 0x00, 0x00, 0x04, 0x00, 0x01, 0x00, 0x00, 0x01,
      0x00, 0x00, 0x00, 0x00, 0x00, 0x00, 0x00, 0x00, 0x10, 0x00, 0x00, 0x00, 0xFF, 0xFF]"

text \<open>
  A header record, then a group \<^verbatim>\<open>WEAP\<close> whose only record declares a payload of 100 bytes
  while two bytes are left in the file.
\<close>

definition file_truncated :: "byte list" where
  "file_truncated =
     [0x54, 0x45, 0x53, 0x34, 0x00, 0x00, 0x00, 0x00, 0x00, 0x00, 0x00, 0x00, 0x00, 0x00, 0x00, 0x00,
      0x00, 0x00, 0x00, 0x00, 0x00, 0x00, 0x00, 0x00, 0x47, 0x52, 0x55, 0x50, 0x32, 0x00, 0x00, 0x00,
      0x57, 0x45, 0x41, 0x50, 0x00, 0x00, 0x00, 0x00, 0x00, 0x00, 0x00, 0x00, 0x00, 0x00, 0x00, 0x00,
      0x57, 0x45, 0x41, 0x50, 0x64, 0x00, 0x00, 0x00, 0x00, 0x00, 0x00, 0x00, 0x01, 0x08, 0x00, 0x00,
      0x00, 0x00, 0x00, 0x00, 0x00, 0x00, 0x00, 0x00, 0x01, 0x02]"

text \<open>
  A header record, then a group of type 1 that declares 34 bytes (10 bytes of content) and
  is followed by a record of 24 + 2 bytes.
\<close>

definition file_overrun :: "byte list" where
  "file_overrun =
     [0x54, 0x45, 0x53, 0x34, 0x00, 0x00, 0x00, 0x00, 0x00, 0x00, 0x00, 0x00, 0x00, 0x00, 0x00, 0x00,
      0x00, 0x00, 0x00, 0x00, 0x00, 0x00, 0x00, 0x00, 0x47, 0x52, 0x55, 0x50, 0x22, 0x00, 0x00, 0x00,
      0x4D, 0x49, 0x53, 0x43, 0x01, 0x00, 0x00, 0x00, 0x00, 0x00, 0x00, 0x00, 0x00, 0x00, 0x00, 0x00,
      0x4D, 0x49, 0x53, 0x43, 0x02, 0x00, 0x00, 0x00, 0x00, 0x00, 0x00, 0x00, 0x01, 0x08, 0x00, 0x00,
      0x00, 0x00, 0x00, 0x00, 0x00, 0x00, 0x00, 0x00, 0x01, 0x02]"

text \<open>
  A header record, then a top-level group labelled \<^verbatim>\<open>KYWD\<close> that holds a record of type
  \<^verbatim>\<open>WEAP\<close>.
\<close>

definition file_mixed :: "byte list" where
  "file_mixed =
     [0x54, 0x45, 0x53, 0x34, 0x00, 0x00, 0x00, 0x00, 0x00, 0x00, 0x00, 0x00, 0x00, 0x00, 0x00, 0x00,
      0x00, 0x00, 0x00, 0x00, 0x00, 0x00, 0x00, 0x00, 0x47, 0x52, 0x55, 0x50, 0x30, 0x00, 0x00, 0x00,
      0x4B, 0x59, 0x57, 0x44, 0x00, 0x00, 0x00, 0x00, 0x00, 0x00, 0x00, 0x00, 0x00, 0x00, 0x00, 0x00,
      0x57, 0x45, 0x41, 0x50, 0x00, 0x00, 0x00, 0x00, 0x00, 0x00, 0x00, 0x00, 0x02, 0x08, 0x00, 0x00,
      0x00, 0x00, 0x00, 0x00, 0x00, 0x00, 0x00, 0x00]"

text \<open>
  A header record, a top-level group \<^verbatim>\<open>WEAP\<close> whose content is seven bytes \<^verbatim>\<open>FF\<close>, and a
  top-level group \<^verbatim>\<open>KYWD\<close> with one record \<^verbatim>\<open>KYWD\<close> (identity \<^verbatim>\<open>0x00000803\<close>, one field \<^verbatim>\<open>EDID\<close>).
\<close>

definition file_skip :: "byte list" where
  "file_skip =
     [0x54, 0x45, 0x53, 0x34, 0x00, 0x00, 0x00, 0x00, 0x00, 0x00, 0x00, 0x00, 0x00, 0x00, 0x00, 0x00,
      0x00, 0x00, 0x00, 0x00, 0x00, 0x00, 0x00, 0x00, 0x47, 0x52, 0x55, 0x50, 0x1F, 0x00, 0x00, 0x00,
      0x57, 0x45, 0x41, 0x50, 0x00, 0x00, 0x00, 0x00, 0x00, 0x00, 0x00, 0x00, 0x00, 0x00, 0x00, 0x00,
      0xFF, 0xFF, 0xFF, 0xFF, 0xFF, 0xFF, 0xFF, 0x47, 0x52, 0x55, 0x50, 0x39, 0x00, 0x00, 0x00, 0x4B,
      0x59, 0x57, 0x44, 0x00, 0x00, 0x00, 0x00, 0x00, 0x00, 0x00, 0x00, 0x00, 0x00, 0x00, 0x00, 0x4B,
      0x59, 0x57, 0x44, 0x09, 0x00, 0x00, 0x00, 0x00, 0x00, 0x00, 0x00, 0x03, 0x08, 0x00, 0x00, 0x00,
      0x00, 0x00, 0x00, 0x00, 0x00, 0x00, 0x00, 0x45, 0x44, 0x49, 0x44, 0x03, 0x00, 0x6B, 0x77, 0x00]"

text \<open>
  A header record, a group of type 1 that declares 24 bytes (no content), and a record
  \<^verbatim>\<open>MISC\<close> (identity \<^verbatim>\<open>0x00000804\<close>, no payload) after it.
\<close>

definition file_empty_group :: "byte list" where
  "file_empty_group =
     [0x54, 0x45, 0x53, 0x34, 0x00, 0x00, 0x00, 0x00, 0x00, 0x00, 0x00, 0x00, 0x00, 0x00, 0x00, 0x00,
      0x00, 0x00, 0x00, 0x00, 0x00, 0x00, 0x00, 0x00, 0x47, 0x52, 0x55, 0x50, 0x18, 0x00, 0x00, 0x00,
      0x4D, 0x49, 0x53, 0x43, 0x01, 0x00, 0x00, 0x00, 0x00, 0x00, 0x00, 0x00, 0x00, 0x00, 0x00, 0x00,
      0x4D, 0x49, 0x53, 0x43, 0x00, 0x00, 0x00, 0x00, 0x00, 0x00, 0x00, 0x00, 0x04, 0x08, 0x00, 0x00,
      0x00, 0x00, 0x00, 0x00, 0x00, 0x00, 0x00, 0x00]"

section \<open>Properties\<close>

declare tes4_loop.simps [simp del] split_loop.simps [simp del] hex_upper.simps [simp del]

subsection \<open>Reads at a non-negative cursor\<close>

lemma py_slice_nonneg:
  "0 \<le> a \<Longrightarrow> a \<le> b \<Longrightarrow> py_slice xs a b = take (nat b - nat a) (drop (nat a) xs)"
  by (auto simp: py_slice_def clamp_index_def min_def)

lemma unpack_from_short:
  "int (length buf) - off < int sz \<Longrightarrow> unpack_from sz buf off = Inl StructError"
  by (auto simp: unpack_from_def)

lemma unpack_from_ok:
  "0 \<le> off \<Longrightarrow> off + int sz \<le> int (length buf) \<Longrightarrow>
   unpack_from sz buf off = Inr (take sz (drop (nat off) buf))"
  by (auto simp: unpack_from_def)

lemma read_uint16_ok:
  "0 \<le> pos r \<Longrightarrow> pos r + 2 \<le> int (length (data r)) \<Longrightarrow>
   read_uint16 r = Inr (le_uint (take 2 (drop (nat (pos r)) (data r))), r\<lparr>pos := pos r + 2\<rparr>)"
  by (simp add: read_uint16_def unpack_from_ok)

lemma read_uint32_ok:
  "0 \<le> pos r \<Longrightarrow> pos r + 4 \<le> int (length (data r)) \<Longrightarrow>
   read_uint32 r = Inr (le_uint (take 4 (drop (nat (pos r)) (data r))), r\<lparr>pos := pos r + 4\<rparr>)"
  by (simp add: read_uint32_def unpack_from_ok)

lemma read_int32_ok:
  "0 \<le> pos r \<Longrightarrow> pos r + 4 \<le> int (length (data r)) \<Longrightarrow>
   read_int32 r = Inr (to_int32 (le_uint (take 4 (drop (nat (pos r)) (data r)))), r\<lparr>pos := pos r + 4\<rparr>)"
  by (simp add: read_int32_def unpack_from_ok)

lemma read_ok:
  "0 \<le> pos r \<Longrightarrow>
   read n r = (take n (drop (nat (pos r)) (data r)), r\<lparr>pos := pos r + int n\<rparr>)"
  by (simp add: read_def py_slice_nonneg nat_add_distrib)

lemma read_sig_ok:
  "0 \<le> pos r \<Longrightarrow>
   read_sig r = (sig_text (take 4 (drop (nat (pos r)) (data r))), r\<lparr>pos := pos r + 4\<rparr>)"
  by (simp add: read_sig_def py_slice_nonneg nat_add_distrib)

subsection \<open>Reads beyond the end of the buffer\<close>

text \<open>
  C7, as amended. The fixed-width numeric reads (\<^verbatim>\<open>read_uint8\<close>, \<^verbatim>\<open>read_uint16\<close>,
  \<^verbatim>\<open>read_uint32\<close>, \<^verbatim>\<open>read_int32\<close>, \<^verbatim>\<open>read_float\<close>) raise \<^verbatim>\<open>struct.error\<close> whenever
  fewer bytes remain than their width. The slice-based reads (\<^verbatim>\<open>read\<close>, \<^verbatim>\<open>read_sig\<close>,
  \<^verbatim>\<open>read_string\<close>) never fail: at a non-negative cursor they return the bytes that are
  available, \<open>min n remaining\<close> of them, and still advance the cursor by the full
  requested length.
\<close>

theorem cursor_reads_out_of_bounds:
  "(remaining r < 1 \<longrightarrow> read_uint8 r = Inl StructError) \<and>
   (remaining r < 2 \<longrightarrow> read_uint16 r = Inl StructError) \<and>
   (remaining r < 4 \<longrightarrow> read_uint32 r = Inl StructError) \<and>
   (remaining r < 4 \<longrightarrow> read_int32 r = Inl StructError) \<and>
   (remaining r < 4 \<longrightarrow> read_float r = Inl StructError) \<and>
   (0 \<le> pos r \<longrightarrow>
      length (fst (read n r)) = min n (nat (remaining r)) \<and>
      fst (read n r) = take n (drop (nat (pos r)) (data r)) \<and>
      pos (snd (read n r)) = pos r + int n \<and>
      fst (read_sig r) = sig_text (take 4 (drop (nat (pos r)) (data r))) \<and>
      pos (snd (read_sig r)) = pos r + 4 \<and>
      fst (read_string txt n r) = txt (takeWhile (\<lambda>b. b \<noteq> 0) (take n (drop (nat (pos r)) (data r)))) \<and>
      pos (snd (read_string txt n r)) = pos r + int n)"
proof -
  have fixed: "\<And>sz. remaining r < int sz \<Longrightarrow> unpack_from sz (data r) (pos r) = Inl StructError"
    by (rule unpack_from_short) (simp add: remaining_def)
  have slices: "0 \<le> pos r \<Longrightarrow> py_slice (data r) (pos r) (pos r + int n) = take n (drop (nat (pos r)) (data r))"
    by (simp add: py_slice_nonneg nat_add_distrib)
  have len: "0 \<le> pos r \<Longrightarrow> length (take n (drop (nat (pos r)) (data r))) = min n (nat (remaining r))"
    by (auto simp: remaining_def min_def)
  show ?thesis
    using fixed [of 1] fixed [of 2] fixed [of 4] slices len
    by (simp add: read_uint8_def read_uint16_def read_uint32_def read_int32_def read_float_def
                  read_ok read_sig_ok read_string_def)
qed

text \<open>The theorem at a reader over two bytes and at an empty one.\<close>

theorem cursor_reads_out_of_bounds_witness:
  "remaining (BinaryReader [1, 2]) < 4 \<and> 0 \<le> pos (BinaryReader [1, 2]) \<and>
   read_uint32 (BinaryReader [1, 2]) = Inl StructError \<and>
   read_uint8 (BinaryReader []) = Inl StructError \<and>
   length (fst (read 4 (BinaryReader [1, 2]))) = 2 \<and>
   fst (read 4 (BinaryReader [1, 2])) = [1, 2] \<and>
   pos (snd (read 4 (BinaryReader [1, 2]))) = 4"
  using cursor_reads_out_of_bounds [of "BinaryReader [1, 2]" 4]
        cursor_reads_out_of_bounds [of "BinaryReader []" 4]
  by (simp add: BinaryReader_def remaining_def)

text \<open>
  C7 as stated fails: with two bytes left, \<^verbatim>\<open>read(4)\<close> and \<^verbatim>\<open>read_sig()\<close> return the two
  bytes and move the cursor to 4, without any error.
\<close>

theorem short_read_counterexample:
  "remaining (BinaryReader [0x41, 0x42]) < 4 \<and>
   read 4 (BinaryReader [0x41, 0x42]) = ([0x41, 0x42], \<lparr>data = [0x41, 0x42], pos = 4\<rparr>) \<and>
   read_sig (BinaryReader [0x41, 0x42]) = (''AB'', \<lparr>data = [0x41, 0x42], pos = 4\<rparr>)"
  by (simp add: BinaryReader_def remaining_def read_def read_sig_def py_slice_def clamp_index_def
                sig_text_def decode_ascii_def char_of_def bit_Suc_0_iff)


subsection \<open>Identity resolution\<close>

lemma master_idx_arith: "(drop_bit 24 (fid::nat)) AND 0xFF = fid div 2 ^ 24 mod 256"
proof -
  have "(drop_bit 24 fid) AND mask 8 = take_bit 8 (drop_bit 24 fid)"
    by (simp add: take_bit_eq_mask)
  moreover have "(mask 8 :: nat) = 0xFF" by (simp add: mask_eq_exp_minus_1)
  ultimately show ?thesis by (simp add: take_bit_eq_mod drop_bit_eq_div)
qed

lemma local_id_arith: "(fid::nat) AND 0x00FFFFFF = fid mod 2 ^ 24"
proof -
  have "fid AND mask 24 = take_bit 24 fid" by (simp add: take_bit_eq_mask)
  moreover have "(mask 24 :: nat) = 0x00FFFFFF" by (simp add: mask_eq_exp_minus_1)
  ultimately show ?thesis by (simp add: take_bit_eq_mod)
qed

lemma replicate_numeral: "replicate (numeral k) x = x # replicate (pred_numeral k) x"
  by (simp add: numeral_eq_Suc)

lemma length_hex_upper: "n < 16 ^ Suc k \<Longrightarrow> length (hex_upper n) \<le> Suc k"
proof (induction k arbitrary: n)
  case 0
  then show ?case by (simp add: hex_upper.simps)
next
  case (Suc k)
  show ?case
  proof (cases "n < 16")
    case True
    then show ?thesis by (simp add: hex_upper.simps)
  next
    case False
    from Suc.prems have "n div 16 < 16 ^ Suc k" by (simp add: less_mult_imp_div_less)
    then have "length (hex_upper (n div 16)) \<le> Suc k" by (rule Suc.IH)
    with False show ?thesis by (subst hex_upper.simps) simp
  qed
qed

lemma hex_digit_upper_in: "hex_digit_upper d \<in> set ''0123456789ABCDEF''"
proof -
  have "d mod 16 < length ''0123456789ABCDEF''" by simp
  then show ?thesis unfolding hex_digit_upper_def by (rule nth_mem)
qed

lemma set_hex_upper: "set (hex_upper n) \<subseteq> set ''0123456789ABCDEF''"
proof (induction n rule: hex_upper.induct)
  case (1 n)
  show ?case
  proof (cases "n < 16")
    case True
    then show ?thesis using hex_digit_upper_in [of n] by (subst hex_upper.simps) simp
  next
    case False
    with 1 have "set (hex_upper (n div 16)) \<subseteq> set ''0123456789ABCDEF''" by simp
    with False show ?thesis using hex_digit_upper_in [of "n mod 16"]
      by (subst hex_upper.simps) simp
  qed
qed

lemma length_format_06X: "n < 2 ^ 24 \<Longrightarrow> length (format_0X 6 n) = 6"
proof -
  assume "n < 2 ^ 24"
  then have "n < 16 ^ Suc 5" by simp
  then have "length (hex_upper n) \<le> Suc 5" by (rule length_hex_upper)
  then show ?thesis by (simp add: format_0X_def)
qed

lemma set_format_0X: "set (format_0X w n) \<subseteq> set ''0123456789ABCDEF''"
  using set_hex_upper [of n] by (auto simp: format_0X_def)

text \<open>
  C4. With \<open>i\<close> the high byte and \<open>l\<close> the low 24 bits of the identity,
  \<^verbatim>\<open>resolve_formid\<close> returns \<open>(masters[i], l)\<close> when \<open>i\<close> is below the number of masters,
  \<open>(filename, l)\<close> when it equals it, and \<open>(UNKNOWN_MASTER_ii, l)\<close> beyond; \<open>l\<close> is always
  written as exactly six upper-case hexadecimal digits. The function has no failing branch.
\<close>

theorem resolve_formid_cases:
  "(fid div 2 ^ 24 mod 256 < length (masters ps) \<longrightarrow>
      resolve_formid ps fid = (masters ps ! (fid div 2 ^ 24 mod 256), format_0X 6 (fid mod 2 ^ 24))) \<and>
   (fid div 2 ^ 24 mod 256 = length (masters ps) \<longrightarrow>
      resolve_formid ps fid = (filename ps, format_0X 6 (fid mod 2 ^ 24))) \<and>
   (fid div 2 ^ 24 mod 256 > length (masters ps) \<longrightarrow>
      resolve_formid ps fid =
        (''UNKNOWN_MASTER_'' @ format_0X 2 (fid div 2 ^ 24 mod 256), format_0X 6 (fid mod 2 ^ 24))) \<and>
   length (snd (resolve_formid ps fid)) = 6 \<and>
   set (snd (resolve_formid ps fid)) \<subseteq> set ''0123456789ABCDEF''"
proof -
  have l: "length (format_0X 6 (fid mod 2 ^ 24)) = 6"
    by (rule length_format_06X) simp
  have s: "set (format_0X 6 (fid mod 2 ^ 24)) \<subseteq> set ''0123456789ABCDEF''"
    by (rule set_format_0X)
  have snd_eq: "snd (resolve_formid ps fid) = format_0X 6 (fid mod 2 ^ 24)"
    by (simp add: resolve_formid_def Let_def master_idx_arith local_id_arith)
  show ?thesis
    unfolding snd_eq using l s
    by (simp add: resolve_formid_def Let_def master_idx_arith local_id_arith)
qed

text \<open>
  The scenario of the specification: masters \<^verbatim>\<open>["A.esm", "B.esm"]\<close> in a file
  \<^verbatim>\<open>Self.esp\<close>.
\<close>

theorem resolve_formid_cases_witness:
  "resolve_formid ((ESPParser ''Self.esp'')\<lparr>masters := [''A.esm'', ''B.esm'']\<rparr>) 0x01000001
     = (''B.esm'', ''000001'') \<and>
   resolve_formid ((ESPParser ''Self.esp'')\<lparr>masters := [''A.esm'', ''B.esm'']\<rparr>) 0x02000005
     = (''Self.esp'', ''000005'') \<and>
   resolve_formid ((ESPParser ''Self.esp'')\<lparr>masters := [''A.esm'', ''B.esm'']\<rparr>) 0x05000000
     = (''UNKNOWN_MASTER_05'', ''000000'')"
  using resolve_formid_cases [of "0x01000001" "(ESPParser ''Self.esp'')\<lparr>masters := [''A.esm'', ''B.esm'']\<rparr>"]
        resolve_formid_cases [of "0x02000005" "(ESPParser ''Self.esp'')\<lparr>masters := [''A.esm'', ''B.esm'']\<rparr>"]
        resolve_formid_cases [of "0x05000000" "(ESPParser ''Self.esp'')\<lparr>masters := [''A.esm'', ''B.esm'']\<rparr>"]
  by (simp add: ESPParser_def format_0X_def hex_upper.simps hex_digit_upper_def replicate_numeral)


subsection \<open>Subrecord splitting\<close>

lemma split_loop_stop:
  "remaining sr < 6 \<Longrightarrow> split_loop x sr subs = Inr subs"
  by (subst split_loop.simps) simp

lemma split_loop_escape:
  assumes "0 \<le> pos sr" and "10 \<le> remaining sr"
    and "sig_text (take 4 (drop (nat (pos sr)) (data sr))) = ''XXXX''"
  shows "split_loop x sr subs =
         split_loop (Some (le_uint (take 4 (drop (nat (pos sr) + 6) (data sr)))))
                    (sr\<lparr>pos := pos sr + 10\<rparr>) subs"
proof -
  from assms(1,2) have len: "nat (pos sr) + 10 \<le> length (data sr)"
    by (simp add: remaining_def)
  show ?thesis
    using assms len
    by (subst split_loop.simps)
       (simp add: has_data_def remaining_def read_sig_ok read_uint16_ok read_ok unpack_def nat_add_distrib add.commute)
qed

lemma split_loop_sub:
  assumes "0 \<le> pos sr" and "6 \<le> remaining sr"
    and "sig_text (take 4 (drop (nat (pos sr)) (data sr))) \<noteq> ''XXXX''"
    and "n = (case x of Some v \<Rightarrow> v | None \<Rightarrow> le_uint (take 2 (drop (nat (pos sr) + 4) (data sr))))"
    and "int n \<le> remaining sr - 6"
  shows "split_loop x sr subs =
         split_loop None (sr\<lparr>pos := pos sr + 6 + int n\<rparr>)
           (subs @ [(sig_text (take 4 (drop (nat (pos sr)) (data sr))),
                     take n (drop (nat (pos sr) + 6) (data sr)))])"
proof -
  show ?thesis
    using assms
    by (subst split_loop.simps)
       (simp add: has_data_def remaining_def read_sig_ok read_uint16_ok read_ok nat_add_distrib add.commute Let_def)
qed

lemma split_loop_overrun:
  assumes "0 \<le> pos sr" and "6 \<le> remaining sr"
    and "sig_text (take 4 (drop (nat (pos sr)) (data sr))) \<noteq> ''XXXX''"
    and "n = (case x of Some v \<Rightarrow> v | None \<Rightarrow> le_uint (take 2 (drop (nat (pos sr) + 4) (data sr))))"
    and "int n > remaining sr - 6"
  shows "split_loop x sr subs = Inr subs"
proof -
  show ?thesis
    using assms
    by (subst split_loop.simps)
       (simp add: has_data_def remaining_def read_sig_ok read_uint16_ok read_ok nat_add_distrib add.commute Let_def)
qed

lemma sig_text_XXXX: "sig_text [0x58, 0x58, 0x58, 0x58] = ''XXXX''"
  by (simp add: sig_text_def decode_ascii_def char_of_def bit_Suc_0_iff)


text \<open>
  C10. On the escape type \<^verbatim>\<open>XXXX\<close> the splitter never looks at the escape's own 16-bit
  size (\<open>s0\<close>, \<open>s1\<close> below): whatever it says, exactly the four bytes after it become the
  pending 32-bit override and the next header is read ten bytes after the start of the
  escape. So an escape that declares six bytes of payload leaves the splitter two bytes
  inside that payload: in the second statement the subrecord \<^verbatim>\<open>DATA\<close> that follows the
  escape is never seen, and a subrecord made of misaligned bytes is produced instead.
\<close>

theorem escape_ignores_declared_size:
  "split_loop x \<lparr>data = pre @ [0x58, 0x58, 0x58, 0x58] @ [s0, s1] @ [b0, b1, b2, b3] @ rest,
                 pos = int (length pre)\<rparr> subs
   = split_loop (Some (le_uint [b0, b1, b2, b3]))
       \<lparr>data = pre @ [0x58, 0x58, 0x58, 0x58] @ [s0, s1] @ [b0, b1, b2, b3] @ rest,
        pos = int (length pre) + 10\<rparr> subs"
  by (subst split_loop_escape) (simp_all add: remaining_def sig_text_XXXX)

text \<open>
  The stream \<^verbatim>\<open>XXXX\<close>, declared size 6, payload \<^verbatim>\<open>02 00 00 00 AA BB\<close>, then \<^verbatim>\<open>DATA\<close> with
  two bytes: the override is 2, the next type is read from \<^verbatim>\<open>AA BB 44 41\<close>.
\<close>

theorem escape_ignores_declared_size_witness:
  "split_loop None
     (BinaryReader ([0x58, 0x58, 0x58, 0x58] @ [0x06, 0x00] @ [0x02, 0x00, 0x00, 0x00, 0xAA, 0xBB]
                    @ [0x44, 0x41, 0x54, 0x41] @ [0x02, 0x00] @ [0x11, 0x22])) []
   = Inr [(''aabb4441'', [0x02, 0x00])]"
  using escape_ignores_declared_size
          [of None "[]" "0x06" "0x00" "0x02" "0x00" "0x00" "0x00"
              "[0xAA, 0xBB, 0x44, 0x41, 0x54, 0x41, 0x02, 0x00, 0x11, 0x22]" "[]"]
  by (simp add: split_loop.simps BinaryReader_def has_data_def remaining_def read_sig_def
                read_uint16_def read_def unpack_from_def unpack_def py_slice_def clamp_index_def
                sig_text_def decode_ascii_def char_of_def bit_Suc_0_iff bytes_hex_def
                hex_digit_lower_def Let_def)

text \<open>
  C3. A stream made of the escape \<^verbatim>\<open>XXXX\<close> (with any 16-bit size of its own) carrying the
  32-bit size 70000, a subrecord header of a type other than \<^verbatim>\<open>XXXX\<close> with 16-bit size 0,
  and 70000 bytes splits into exactly one subrecord, of that type and with those 70000
  bytes. Followed by further bytes \<open>rest\<close>, the loop goes on after the 70000 bytes with no
  override pending: the override was used once.
\<close>

theorem oversized_escape_one_subrecord:
  assumes "length dt = 4" and "sig_text dt \<noteq> ''XXXX''" and "length payload = 70000"
  shows "split_loop None
           (BinaryReader ([0x58, 0x58, 0x58, 0x58] @ [s0, s1] @ [0x70, 0x11, 0x01, 0x00]
                          @ dt @ [0x00, 0x00] @ payload)) []
         = Inr [(sig_text dt, payload)]
       \<and>
         split_loop None
           (BinaryReader ([0x58, 0x58, 0x58, 0x58] @ [s0, s1] @ [0x70, 0x11, 0x01, 0x00]
                          @ dt @ [0x00, 0x00] @ payload @ rest)) []
         = split_loop None
             \<lparr>data = [0x58, 0x58, 0x58, 0x58] @ [s0, s1] @ [0x70, 0x11, 0x01, 0x00]
                     @ dt @ [0x00, 0x00] @ payload @ rest,
              pos = 70016\<rparr>
             [(sig_text dt, payload)]"
proof -
  have general: "split_loop None
           (BinaryReader ([0x58, 0x58, 0x58, 0x58] @ [s0, s1] @ [0x70, 0x11, 0x01, 0x00]
                          @ dt @ [0x00, 0x00] @ payload @ tl)) []
         = split_loop None
             \<lparr>data = [0x58, 0x58, 0x58, 0x58] @ [s0, s1] @ [0x70, 0x11, 0x01, 0x00]
                     @ dt @ [0x00, 0x00] @ payload @ tl,
              pos = 70016\<rparr>
             [(sig_text dt, payload)]" for tl
  proof -
    let ?d = "[0x58, 0x58, 0x58, 0x58] @ [s0, s1] @ [0x70, 0x11, 0x01, 0x00]
                          @ dt @ [0x00, 0x00] @ payload @ tl"
    have esc: "split_loop None (BinaryReader ?d) []
               = split_loop (Some 70000) \<lparr>data = ?d, pos = 10\<rparr> []"
      unfolding BinaryReader_def
      by (subst split_loop_escape) (simp_all add: remaining_def sig_text_XXXX)
    have sub: "split_loop (Some 70000) \<lparr>data = ?d, pos = 10\<rparr> []
               = split_loop None \<lparr>data = ?d, pos = 70016\<rparr> [(sig_text dt, payload)]"
      using assms
      by (subst split_loop_sub [where n = 70000]) (simp_all add: remaining_def)
    show ?thesis using esc sub by simp
  qed
  have stop: "split_loop None
             \<lparr>data = [0x58, 0x58, 0x58, 0x58] @ [s0, s1] @ [0x70, 0x11, 0x01, 0x00]
                     @ dt @ [0x00, 0x00] @ payload @ [],
              pos = 70016\<rparr>
             [(sig_text dt, payload)] = Inr [(sig_text dt, payload)]"
    using assms by (intro split_loop_stop) (simp add: remaining_def)
  show ?thesis
    using general [of "[]"] general [of rest] stop by simp
qed

lemma sig_text_DATA: "sig_text [0x44, 0x41, 0x54, 0x41] = ''DATA''"
  by (simp add: sig_text_def decode_ascii_def char_of_def bit_Suc_0_iff)

text \<open>The theorem for the type \<^verbatim>\<open>DATA\<close>, 70000 zero bytes and a declared escape size of 4.\<close>

theorem oversized_escape_one_subrecord_witness:
  "length [0x44, 0x41, 0x54, 0x41 :: byte] = 4 \<and> sig_text [0x44, 0x41, 0x54, 0x41] \<noteq> ''XXXX'' \<and>
   length (replicate 70000 (0 :: byte)) = 70000 \<and>
   split_loop None
     (BinaryReader ([0x58, 0x58, 0x58, 0x58] @ [0x04, 0x00] @ [0x70, 0x11, 0x01, 0x00]
                    @ [0x44, 0x41, 0x54, 0x41] @ [0x00, 0x00] @ replicate 70000 0)) []
   = Inr [(''DATA'', replicate 70000 0)]"
proof -
  have h1: "length [0x44, 0x41, 0x54, 0x41 :: byte] = 4" by simp
  have h2: "sig_text [0x44, 0x41, 0x54, 0x41] \<noteq> ''XXXX''" by (simp add: sig_text_DATA)
  have h3: "length (replicate 70000 (0 :: byte)) = 70000" by simp
  from oversized_escape_one_subrecord [OF h1 h2 h3, of "0x04" "0x00" "[]"] h1 h2 h3
  show ?thesis by (simp add: sig_text_DATA)
qed


subsection \<open>Keywords\<close>

lemma filter_less_upt: "m \<le> n \<Longrightarrow> filter (\<lambda>k. k < m) [0..<n] = [0..<m]"
proof (induction n)
  case 0
  then show ?case by simp
next
  case (Suc n)
  show ?case
  proof (cases "m = Suc n")
    case True
    then show ?thesis by simp
  next
    case False
    with Suc.prems have "m \<le> n" by simp
    with Suc.IH show ?thesis by simp
  qed
qed

lemma kwda_keywords_chunks:
  "kwda_keywords d = map (\<lambda>k. le_uint (take 4 (drop (4 * k) d))) [0 ..< length d div 4]"
proof -
  have idx: "filter (\<lambda>i. i + 4 \<le> length d) (map (\<lambda>k. 4 * k) [0 ..< (length d + 3) div 4])
             = map (\<lambda>k. 4 * k) [0 ..< length d div 4]"
  proof -
    have "(\<lambda>i. i + 4 \<le> length d) \<circ> (\<lambda>k. 4 * k) = (\<lambda>k. k < length d div 4)"
      by (rule ext) (simp, arith)
    moreover have "length d div 4 \<le> (length d + 3) div 4" by arith
    ultimately show ?thesis by (simp add: filter_map filter_less_upt)
  qed
  have sl: "py_slice d (4 * int k) (4 * int k + 4) = take 4 (drop (4 * k) d)" for k
    by (simp add: py_slice_nonneg nat_add_distrib nat_mult_distrib)
  show ?thesis
    unfolding kwda_keywords_def idx by (simp add: sl o_def)
qed

lemma length_kwda_keywords: "length (kwda_keywords d) = length d div 4"
  by (simp add: kwda_keywords_chunks)

lemma nth_kwda_keywords:
  "k < length d div 4 \<Longrightarrow> kwda_keywords d ! k = le_uint (take 4 (drop (4 * k) d))"
  by (simp add: kwda_keywords_chunks)

lemma parse_subrecords_loop_keywords:
  "parse_subrecords_loop kc r subs = Inr (kc', r') \<Longrightarrow>
   rec_keywords r' =
     (case filter (\<lambda>(t, d). t = ''KWDA'') subs of
        [] \<Rightarrow> rec_keywords r
      | ks \<Rightarrow> kwda_keywords (snd (last ks)))"
proof (induction kc r subs rule: parse_subrecords_loop.induct)
  case (1 keyword_count r)
  then show ?case by simp
next
  case (2 keyword_count r sub_type sub_data rest)
  show ?case
  proof (cases "sub_type = ''KWDA''")
    case True
    with 2 show ?thesis by (auto split: list.splits)
  next
    case False
    with 2 show ?thesis by (auto simp: unpack_def split: if_splits list.splits)
  qed
qed

text \<open>
  C8, as amended. When \<^verbatim>\<open>parse_subrecords\<close> returns, the keyword list is decoded from the
  last \<^verbatim>\<open>KWDA\<close> payload alone: one 32-bit little-endian identity for each complete group
  of four bytes, \<open>length d div 4\<close> of them. No \<^verbatim>\<open>KSIZ\<close> subrecord has any influence on the list:
  its count is read into a local variable that is never used.
\<close>

theorem keywords_from_kwda_length:
  assumes "parse_subrecords r = Inr r'"
  shows "rec_keywords r' =
           (case filter (\<lambda>(t, d). t = ''KWDA'') (subrecords r) of
              [] \<Rightarrow> rec_keywords r
            | ks \<Rightarrow> kwda_keywords (snd (last ks)))
         \<and> (\<forall>d. length (kwda_keywords d) = length d div 4
              \<and> (\<forall>k < length d div 4. kwda_keywords d ! k = le_uint (take 4 (drop (4 * k) d))))"
proof -
  from assms obtain kc' where "parse_subrecords_loop 0 r (subrecords r) = Inr (kc', r')"
    by (auto simp: parse_subrecords_def split: sum.splits)
  then show ?thesis
    by (simp add: parse_subrecords_loop_keywords length_kwda_keywords nth_kwda_keywords)
qed

lemmas kwda_eval = kwda_keywords_chunks upt_rec unpack_def

text \<open>A count of 5 in \<^verbatim>\<open>KSIZ\<close> and eight bytes in \<^verbatim>\<open>KWDA\<close>: two keywords.\<close>

theorem keywords_from_kwda_length_witness:
  "parse_subrecords
     (ESPRecord\<lparr>subrecords := [(''KSIZ'', [0x05, 0x00, 0x00, 0x00]),
                                (''KWDA'', [0xA2, 0xA0, 0x04, 0x00, 0xEF, 0x24, 0x04, 0x00])]\<rparr>)
   = Inr (ESPRecord\<lparr>subrecords := [(''KSIZ'', [0x05, 0x00, 0x00, 0x00]),
                                     (''KWDA'', [0xA2, 0xA0, 0x04, 0x00, 0xEF, 0x24, 0x04, 0x00])],
                     rec_keywords := [0x0004A0A2, 0x000424EF]\<rparr>)
   \<and> rec_keywords (ESPRecord\<lparr>subrecords := [(''KSIZ'', [0x05, 0x00, 0x00, 0x00]),
                                     (''KWDA'', [0xA2, 0xA0, 0x04, 0x00, 0xEF, 0x24, 0x04, 0x00])],
                     rec_keywords := [0x0004A0A2, 0x000424EF]\<rparr>)
     = kwda_keywords [0xA2, 0xA0, 0x04, 0x00, 0xEF, 0x24, 0x04, 0x00]"
proof -
  have run: "parse_subrecords
     (ESPRecord\<lparr>subrecords := [(''KSIZ'', [0x05, 0x00, 0x00, 0x00]),
                                (''KWDA'', [0xA2, 0xA0, 0x04, 0x00, 0xEF, 0x24, 0x04, 0x00])]\<rparr>)
   = Inr (ESPRecord\<lparr>subrecords := [(''KSIZ'', [0x05, 0x00, 0x00, 0x00]),
                                     (''KWDA'', [0xA2, 0xA0, 0x04, 0x00, 0xEF, 0x24, 0x04, 0x00])],
                     rec_keywords := [0x0004A0A2, 0x000424EF]\<rparr>)"
    by (simp add: parse_subrecords_def ESPRecord_def kwda_eval)
  from keywords_from_kwda_length [OF run] run show ?thesis
    by (simp add: ESPRecord_def)
qed

text \<open>
  C8 as stated fails: \<^verbatim>\<open>KSIZ\<close> announces one keyword, \<^verbatim>\<open>KWDA\<close> holds eight bytes, and the
  record gets two keywords; the loop ends with \<^verbatim>\<open>keyword_count = 1\<close>.
\<close>

theorem keyword_count_ignored_counterexample:
  "parse_subrecords_loop 0 ESPRecord
     [(''KSIZ'', [0x01, 0x00, 0x00, 0x00]),
      (''KWDA'', [0xA2, 0xA0, 0x04, 0x00, 0xEF, 0x24, 0x04, 0x00])]
   = Inr (1, ESPRecord\<lparr>rec_keywords := [0x0004A0A2, 0x000424EF]\<rparr>)
   \<and> length (rec_keywords (ESPRecord\<lparr>rec_keywords := [0x0004A0A2, 0x000424EF]\<rparr>)) \<noteq> 1"
  by (simp add: ESPRecord_def kwda_eval)


subsection \<open>The record envelope\<close>

text \<open>
  At a non-negative cursor with at least 24 bytes left, \<^verbatim>\<open>_parse_record\<close> reads the
  envelope without error. The three lemmas follow its three ways out.
\<close>

lemma parse_record_short:
  "remaining rd < 24 \<Longrightarrow>
   parse_record cx rd ps = Inr (None, rd\<lparr>pos := int (length (data rd))\<rparr>, ps)"
  by (simp add: parse_record_def skip_def remaining_def)

lemma parse_record_truncated:
  assumes "0 \<le> pos rd" and "24 \<le> remaining rd"
    and "int (le_uint (take 4 (drop (nat (pos rd) + 4) (data rd)))) > remaining rd - 24"
  shows "parse_record cx rd ps =
           Inr (None, rd\<lparr>pos := int (length (data rd))\<rparr>,
                ps\<lparr>record_count := record_count ps + 1,
                   type_counts := AList.map_default
                      (sig_text (take 4 (drop (nat (pos rd)) (data rd)))) 1 (\<lambda>c. c + 1)
                      (type_counts ps)\<rparr>)"
  using assms
  by (simp add: parse_record_def read_sig_ok read_uint32_ok remaining_def skip_def Let_def
                nat_add_distrib add.commute)

lemma parse_record_decompress_failure:
  assumes "0 \<le> pos rd" and "24 \<le> remaining rd"
    and "n = le_uint (take 4 (drop (nat (pos rd) + 4) (data rd)))"
    and "int n \<le> remaining rd - 24" and "4 \<le> n"
    and "fl = le_uint (take 4 (drop (nat (pos rd) + 8) (data rd)))"
    and "fl AND FLAG_COMPRESSED \<noteq> 0"
    and "payload = take n (drop (nat (pos rd) + 24) (data rd))"
    and "zlib_decompress cx (drop 4 payload) (le_uint (take 4 payload)) = None"
  shows "parse_record cx rd ps =
           Inr (Some \<lparr>rec_type = sig_text (take 4 (drop (nat (pos rd)) (data rd))),
                      data_size = n, flags = fl,
                      form_id = le_uint (take 4 (drop (nat (pos rd) + 12) (data rd))),
                      timestamp = le_uint (take 4 (drop (nat (pos rd) + 16) (data rd))),
                      version_info = le_uint (take 4 (drop (nat (pos rd) + 20) (data rd))),
                      subrecords = [], is_compressed = True, rec_keywords = []\<rparr>,
                rd\<lparr>pos := pos rd + 24 + int n\<rparr>,
                ps\<lparr>record_count := record_count ps + 1,
                   type_counts := AList.map_default
                      (sig_text (take 4 (drop (nat (pos rd)) (data rd)))) 1 (\<lambda>c. c + 1)
                      (type_counts ps),
                   compressed_count := compressed_count ps + 1\<rparr>)"
proof -
  from assms(1,2,4) have len: "length payload = n"
    unfolding assms(8) by (simp add: remaining_def)
  have sl: "py_slice payload 0 4 = take 4 payload"
    by (simp add: py_slice_nonneg)
  show ?thesis
    using assms(1,2,4,5,7,9) len
    unfolding assms(3) assms(6) assms(8)
    by (simp add: parse_record_def read_sig_ok read_uint32_ok read_ok remaining_def skip_def
                  Let_def nat_add_distrib add.commute sl py_slice_nonneg)
qed


text \<open>Unfolding sets for running the decoder on a concrete file.\<close>

lemmas reader_eval =
  read_def read_sig_def read_uint16_def read_uint32_def read_int32_def remaining_def has_data_def
  peek_sig_def skip_def BinaryReader_def unpack_from_def unpack_def py_slice_def clamp_index_def
  sig_text_def decode_ascii_def bytes_hex_def hex_digit_lower_def char_of_def bit_Suc_0_iff
  to_int32_def

lemmas parser_eval =
  parse_def parse_tes4_def tes4_loop.simps ESPParser_def FLAG_ESM_def FLAG_ESL_def
  FLAG_LOCALIZED_def FLAG_COMPRESSED_def group_header_def parse_record_def store_record_def
  split_loop.simps parse_subrecords_def filtered_out_def no_inflate_def rstrip0_def Let_def

subsection \<open>C1: a record whose payload does not inflate\<close>

text \<open>
  C1 does not hold of the code. The claim is that a compressed record whose payload fails
  to decompress is kept in the by-type and by-identity indexes with no subrecords. In
  \<^verbatim>\<open>_parse_record\<close> the \<^verbatim>\<open>except zlib.error\<close> branch returns the record before the two
  lines that store it, and no caller uses the returned value. Decoding the file below
  succeeds, counts the record (\<^verbatim>\<open>record_count\<close>, \<^verbatim>\<open>type_counts\<close>, \<^verbatim>\<open>compressed_count\<close>), and
  leaves both indexes empty.
\<close>

theorem decompress_failure_record_not_stored:
  "parse no_inflate (Suc (Suc (Suc (Suc (Suc 0))))) ''Bad.esp'' file_bad_deflate None =
     Some (Inr \<lparr>filename = ''Bad.esp'', version = [], num_records = 0, next_object_id = 0,
                masters = [], is_esm = False, is_esl = False, is_localized = False,
                records = [], records_by_formid = [],
                group_count = 1, record_count = 1, compressed_count = 1,
                type_counts = [(''WEAP'', 1)]\<rparr>)"
  by (simp add: parser_eval reader_eval file_bad_deflate_def)

subsection \<open>C6 and C9: an envelope that declares more than the file holds\<close>

text \<open>
  C6, as amended. When the declared payload size of an envelope exceeds the bytes
  remaining after it, \<^verbatim>\<open>_parse_record\<close> does not raise and returns \<^verbatim>\<open>None\<close>; the cursor is at
  the end of the buffer; both indexes are unchanged. The parser object differs from the
  one before the call in \<^verbatim>\<open>record_count\<close> and \<^verbatim>\<open>type_counts\<close> only: nothing records a warning
  or marks the decode as incomplete.
\<close>

theorem truncated_envelope_dropped_silently:
  assumes "0 \<le> pos rd" and "24 \<le> remaining rd"
    and "int (le_uint (take 4 (drop (nat (pos rd) + 4) (data rd)))) > remaining rd - 24"
  shows "\<exists>rd' ps'. parse_record cx rd ps = Inr (None, rd', ps')
           \<and> remaining rd' = 0 \<and> data rd' = data rd
           \<and> records ps' = records ps \<and> records_by_formid ps' = records_by_formid ps
           \<and> ps' = ps\<lparr>record_count := record_count ps + 1,
                       type_counts := AList.map_default
                         (sig_text (take 4 (drop (nat (pos rd)) (data rd)))) 1 (\<lambda>c. c + 1)
                         (type_counts ps)\<rparr>"
  using parse_record_truncated [OF assms] by (simp add: remaining_def)

theorem truncated_envelope_dropped_silently_witness:
  "parse_record no_inflate \<lparr>data = file_truncated, pos = 48\<rparr> (ESPParser ''Cut.esp'') =
     Inr (None, \<lparr>data = file_truncated, pos = 74\<rparr>,
          (ESPParser ''Cut.esp'')\<lparr>record_count := 1, type_counts := [(''WEAP'', 1)]\<rparr>)"
proof -
  have h1: "0 \<le> pos \<lparr>data = file_truncated, pos = 48\<rparr>" by simp
  have h2: "24 \<le> remaining \<lparr>data = file_truncated, pos = 48\<rparr>"
    by (simp add: remaining_def file_truncated_def)
  have h3: "int (le_uint (take 4 (drop (nat (pos \<lparr>data = file_truncated, pos = 48\<rparr>) + 4)
                 (data \<lparr>data = file_truncated, pos = 48\<rparr>))))
            > remaining \<lparr>data = file_truncated, pos = 48\<rparr> - 24"
    by (simp add: remaining_def file_truncated_def)
  from truncated_envelope_dropped_silently [OF h1 h2 h3, of no_inflate "ESPParser ''Cut.esp''"]
  show ?thesis
    by (auto simp: remaining_def file_truncated_def ESPParser_def sig_text_def decode_ascii_def
                   char_of_def bit_Suc_0_iff)
qed

text \<open>
  C6 as stated fails in its last part. Decoding the truncated file returns normally, and
  the parser object it leaves is the one below: the record is in no index and no field
  holds a warning.
\<close>

theorem truncated_file_no_warning_counterexample:
  "parse no_inflate (Suc (Suc (Suc (Suc (Suc 0))))) ''Cut.esp'' file_truncated None =
     Some (Inr \<lparr>filename = ''Cut.esp'', version = [], num_records = 0, next_object_id = 0,
                masters = [], is_esm = False, is_esl = False, is_localized = False,
                records = [], records_by_formid = [],
                group_count = 1, record_count = 1, compressed_count = 0,
                type_counts = [(''WEAP'', 1)]\<rparr>)"
  by (simp add: parser_eval reader_eval file_truncated_def)




subsection \<open>The group walker\<close>

lemma group_header_ok:
  assumes "0 \<le> pos rd" and "24 \<le> remaining rd"
    and "sig_text (take 4 (drop (nat (pos rd)) (data rd))) = ''GRUP''"
  shows "group_header rd =
           Inr (take 4 (drop (nat (pos rd) + 8) (data rd)),
                to_int32 (le_uint (take 4 (drop (nat (pos rd) + 12) (data rd)))),
                int (le_uint (take 4 (drop (nat (pos rd) + 4) (data rd)))) - 24,
                rd\<lparr>pos := pos rd + 24\<rparr>)"
  using assms
  by (simp add: group_header_def read_sig_ok read_uint32_ok read_int32_ok read_ok remaining_def
                Let_def nat_add_distrib add.commute)

lemma group_header_result:
  assumes "group_header rd = Inr (label_raw, group_type, content_size, rd6)" and "0 \<le> pos rd"
  shows "pos rd6 = pos rd + 24 \<and> data rd6 = data rd \<and>
         content_size = int (le_uint (take 4 (drop (nat (pos rd) + 4) (data rd)))) - 24"
proof -
  have sig: "sig_text (take 4 (drop (nat (pos rd)) (data rd))) = ''GRUP''"
    using assms by (auto simp: group_header_def read_sig_ok Let_def split: if_splits)
  have len: "24 \<le> remaining rd"
    using assms
    by (auto simp: group_header_def read_sig_ok read_ok Let_def read_uint32_def read_int32_def
                   unpack_from_def remaining_def
             split: if_splits sum.splits)
  from assms(1) group_header_ok [OF assms(2) len sig] show ?thesis by auto
qed

lemma group_loop_at_end:
  "end_pos \<le> pos rd \<Longrightarrow> group_loop cx (Suc fuel) ft end_pos rd ps = Some (Inr (rd, ps))"
  by simp

lemma group_loop_post:
  "group_loop cx fuel ft end_pos rd ps = Some (Inr (rd', ps')) \<Longrightarrow>
   end_pos \<le> pos rd' \<or> remaining rd' < 4"
proof (induction fuel arbitrary: rd ps)
  case 0
  then show ?case by simp
next
  case (Suc fuel)
  show ?case
  proof (cases "pos rd < end_pos \<and> \<not> remaining rd < 4")
    case False
    with Suc.prems show ?thesis by (auto split: if_splits)
  next
    case True
    show ?thesis
    proof (cases "peek_sig rd = Some ''GRUP''")
      case grp: True
      with True Suc.prems obtain rd1 ps1 where
        "group_loop cx fuel ft end_pos rd1 ps1 = Some (Inr (rd', ps'))"
        by (auto split: option.splits sum.splits)
      then show ?thesis by (rule Suc.IH)
    next
      case rcd: False
      with True Suc.prems obtain rd1 ps1 where
        "group_loop cx fuel ft end_pos rd1 ps1 = Some (Inr (rd', ps'))"
        by (auto split: option.splits sum.splits)
      then show ?thesis by (rule Suc.IH)
    qed
  qed
qed

lemma parse_group_post:
  assumes "group_header rd = Inr (label_raw, group_type, content_size, rd6)"
    and "parse_group cx fuel ft rd ps = Some (Inr (rd', ps'))"
  shows "pos rd6 + content_size \<le> pos rd' \<or> remaining rd' < 4"
proof (cases fuel)
  case 0
  with assms(2) show ?thesis by simp
next
  case (Suc n)
  show ?thesis
  proof (cases "group_type = 0 \<and> filtered_out ft (sig_text label_raw)")
    case True
    with assms Suc show ?thesis by (auto simp: skip_def Let_def)
  next
    case False
    with assms Suc have
      "group_loop cx n ft (pos rd6 + content_size) rd6 (ps\<lparr>group_count := group_count ps + 1\<rparr>)
         = Some (Inr (rd', ps'))"
      by (auto simp: Let_def)
    then show ?thesis by (rule group_loop_post)
  qed
qed

subsection \<open>C2: the content end of a container\<close>

text \<open>
  C2, as amended. For a container whose header is read at a non-negative cursor, the
  content starts 24 bytes after the start of the header and the content end computed by
  \<^verbatim>\<open>_parse_group\<close> is start + 24 + (declared size - 24). Unless the container is skipped,
  \<^verbatim>\<open>_parse_group\<close> is the entry loop run from the end of the header with that content end
  and no other: at each turn the loop begins an entry exactly when the cursor is strictly
  before the content end and at least 4 bytes remain, and goes on with the same content
  end after the entry; otherwise it returns with the cursor and the parser object as
  they are. A container that declares no content therefore decodes nothing, and when
  \<^verbatim>\<open>_parse_group\<close> returns, the cursor is at or past the content end or fewer than 4 bytes
  remain. Nothing bounds the cursor from above by the content end.
\<close>

theorem container_content_end:
  assumes "group_header rd = Inr (label_raw, group_type, content_size, rd6)" and "0 \<le> pos rd"
  shows "pos rd6 = pos rd + 24
       \<and> pos rd6 + content_size =
           pos rd + 24 + (int (le_uint (take 4 (drop (nat (pos rd) + 4) (data rd)))) - 24)
       \<and> (\<forall>n r p. pos rd6 + content_size \<le> pos r \<longrightarrow>
            group_loop cx (Suc n) ft (pos rd6 + content_size) r p = Some (Inr (r, p)))
       \<and> (\<forall>rd' ps'. parse_group cx fuel ft rd ps = Some (Inr (rd', ps')) \<longrightarrow>
            pos rd6 + content_size \<le> pos rd' \<or> remaining rd' < 4)
       \<and> (\<forall>n. parse_group cx (Suc n) ft rd ps =
            (if group_type = 0 \<and> filtered_out ft (sig_text label_raw)
             then Some (Inr (rd\<lparr>pos := pos rd + 24
                                   + (int (le_uint (take 4 (drop (nat (pos rd) + 4) (data rd)))) - 24)\<rparr>,
                             ps\<lparr>group_count := group_count ps + 1\<rparr>))
             else group_loop cx n ft
                    (pos rd + 24 + (int (le_uint (take 4 (drop (nat (pos rd) + 4) (data rd)))) - 24))
                    (rd\<lparr>pos := pos rd + 24\<rparr>) (ps\<lparr>group_count := group_count ps + 1\<rparr>)))
       \<and> (\<forall>n r p. group_loop cx (Suc n) ft (pos rd6 + content_size) r p =
            (if pos r < pos rd6 + content_size \<and> 4 \<le> remaining r then
               (if peek_sig r = Some ''GRUP'' then
                  (case parse_group cx n ft r p of
                     None \<Rightarrow> None
                   | Some (Inl e) \<Rightarrow> Some (Inl e)
                   | Some (Inr (r', p')) \<Rightarrow> group_loop cx n ft (pos rd6 + content_size) r' p')
                else
                  (case parse_record cx r p of
                     Inl e \<Rightarrow> Some (Inl e)
                   | Inr (ret, r', p') \<Rightarrow> group_loop cx n ft (pos rd6 + content_size) r' p'))
             else Some (Inr (r, p))))
       \<and> (\<forall>n. content_size \<le> 0 \<and> \<not> (group_type = 0 \<and> filtered_out ft (sig_text label_raw)) \<longrightarrow>
            parse_group cx (Suc (Suc n)) ft rd ps =
              Some (Inr (rd\<lparr>pos := pos rd + 24\<rparr>, ps\<lparr>group_count := group_count ps + 1\<rparr>)))"
proof -
  let ?declared = "int (le_uint (take 4 (drop (nat (pos rd) + 4) (data rd))))"
  let ?ps1 = "ps\<lparr>group_count := group_count ps + 1\<rparr>"
  note hdr = group_header_result [OF assms]
  from hdr have rd6: "rd6 = rd\<lparr>pos := pos rd + 24\<rparr>" by simp
  from hdr have cs: "content_size = ?declared - 24" by simp
  have c1: "pos rd6 = pos rd + 24" using hdr by simp
  have c2: "pos rd6 + content_size = pos rd + 24 + (?declared - 24)" using hdr by simp
  have c3: "\<forall>n r p. pos rd6 + content_size \<le> pos r \<longrightarrow>
              group_loop cx (Suc n) ft (pos rd6 + content_size) r p = Some (Inr (r, p))"
    by (simp add: group_loop_at_end del: group_loop.simps)
  have c4: "\<forall>rd' ps'. parse_group cx fuel ft rd ps = Some (Inr (rd', ps')) \<longrightarrow>
              pos rd6 + content_size \<le> pos rd' \<or> remaining rd' < 4"
    using parse_group_post [OF assms(1)] by blast
  have run: "parse_group cx (Suc n) ft rd ps =
               (if group_type = 0 \<and> filtered_out ft (sig_text label_raw)
                then Some (Inr (skip content_size rd6, ?ps1))
                else group_loop cx n ft (pos rd6 + content_size) rd6 ?ps1)" for n
    using assms(1) by (simp add: Let_def)
  have c5: "\<forall>n. parse_group cx (Suc n) ft rd ps =
            (if group_type = 0 \<and> filtered_out ft (sig_text label_raw)
             then Some (Inr (rd\<lparr>pos := pos rd + 24 + (?declared - 24)\<rparr>, ?ps1))
             else group_loop cx n ft (pos rd + 24 + (?declared - 24))
                    (rd\<lparr>pos := pos rd + 24\<rparr>) ?ps1)"
  proof (cases "group_type = 0 \<and> filtered_out ft (sig_text label_raw)")
    case True
    then show ?thesis unfolding run by (simp add: rd6 cs skip_def del: group_loop.simps)
  next
    case False
    then show ?thesis unfolding run by (auto simp add: rd6 cs simp del: group_loop.simps)
  qed
  have c6: "\<forall>n r p. group_loop cx (Suc n) ft (pos rd6 + content_size) r p =
            (if pos r < pos rd6 + content_size \<and> 4 \<le> remaining r then
               (if peek_sig r = Some ''GRUP'' then
                  (case parse_group cx n ft r p of
                     None \<Rightarrow> None
                   | Some (Inl e) \<Rightarrow> Some (Inl e)
                   | Some (Inr (r', p')) \<Rightarrow> group_loop cx n ft (pos rd6 + content_size) r' p')
                else
                  (case parse_record cx r p of
                     Inl e \<Rightarrow> Some (Inl e)
                   | Inr (ret, r', p') \<Rightarrow> group_loop cx n ft (pos rd6 + content_size) r' p'))
             else Some (Inr (r, p)))"
    by (simp add: not_less)
  have c7: "\<forall>n. content_size \<le> 0 \<and> \<not> (group_type = 0 \<and> filtered_out ft (sig_text label_raw)) \<longrightarrow>
            parse_group cx (Suc (Suc n)) ft rd ps = Some (Inr (rd\<lparr>pos := pos rd + 24\<rparr>, ?ps1))"
  proof (intro allI impI)
    fix n
    assume h: "content_size \<le> 0 \<and> \<not> (group_type = 0 \<and> filtered_out ft (sig_text label_raw))"
    then have "pos rd6 + content_size \<le> pos rd6" by simp
    then have "group_loop cx (Suc n) ft (pos rd6 + content_size) rd6 ?ps1 = Some (Inr (rd6, ?ps1))"
      by (rule group_loop_at_end)
    with h show "parse_group cx (Suc (Suc n)) ft rd ps = Some (Inr (rd\<lparr>pos := pos rd + 24\<rparr>, ?ps1))"
      unfolding run by (auto simp add: rd6 simp del: group_loop.simps)
  qed
  from c1 c2 c3 c4 c5 c6 c7 show ?thesis by blast
qed

theorem container_content_end_witness:
  "group_header \<lparr>data = file_skip, pos = 55\<rparr> =
     Inr ([0x4B, 0x59, 0x57, 0x44], 0, 33, \<lparr>data = file_skip, pos = 79\<rparr>)
   \<and> int (le_uint (take 4 (drop 59 file_skip))) = 57
   \<and> (\<exists>ps'. parse_group no_inflate (Suc (Suc (Suc 0))) None \<lparr>data = file_skip, pos = 55\<rparr>
               (ESPParser ''Skip.esp'') = Some (Inr (\<lparr>data = file_skip, pos = 112\<rparr>, ps')))
   \<and> group_loop no_inflate (Suc 0) None 112 \<lparr>data = file_skip, pos = 112\<rparr> (ESPParser ''Skip.esp'')
       = Some (Inr (\<lparr>data = file_skip, pos = 112\<rparr>, ESPParser ''Skip.esp''))
   \<and> group_header \<lparr>data = file_empty_group, pos = 24\<rparr> =
       Inr ([0x4D, 0x49, 0x53, 0x43], 1, 0, \<lparr>data = file_empty_group, pos = 48\<rparr>)
   \<and> parse_group no_inflate (Suc (Suc 0)) None \<lparr>data = file_empty_group, pos = 24\<rparr>
       (ESPParser ''Empty.esp'') =
     Some (Inr (\<lparr>data = file_empty_group, pos = 48\<rparr>, (ESPParser ''Empty.esp'')\<lparr>group_count := 1\<rparr>))"
proof -
  have h1: "group_header \<lparr>data = file_skip, pos = 55\<rparr> =
              Inr ([0x4B, 0x59, 0x57, 0x44], 0, 33, \<lparr>data = file_skip, pos = 79\<rparr>)"
    by (simp add: parser_eval reader_eval file_skip_def)
  have h2: "0 \<le> pos \<lparr>data = file_skip, pos = 55\<rparr>" by simp
  have h3: "\<exists>ps'. parse_group no_inflate (Suc (Suc (Suc 0))) None \<lparr>data = file_skip, pos = 55\<rparr>
               (ESPParser ''Skip.esp'') = Some (Inr (\<lparr>data = file_skip, pos = 112\<rparr>, ps'))"
    by (simp add: parser_eval reader_eval file_skip_def)
  have g1: "group_header \<lparr>data = file_empty_group, pos = 24\<rparr> =
              Inr ([0x4D, 0x49, 0x53, 0x43], 1, 0, \<lparr>data = file_empty_group, pos = 48\<rparr>)"
    by (simp add: parser_eval reader_eval file_empty_group_def)
  have g2: "0 \<le> pos \<lparr>data = file_empty_group, pos = 24\<rparr>" by simp
  from container_content_end [OF h1 h2, of no_inflate None "Suc (Suc (Suc 0))" "ESPParser ''Skip.esp''"]
  have a: "group_loop no_inflate (Suc 0) None 112 \<lparr>data = file_skip, pos = 112\<rparr> (ESPParser ''Skip.esp'')
             = Some (Inr (\<lparr>data = file_skip, pos = 112\<rparr>, ESPParser ''Skip.esp''))
           \<and> int (le_uint (take 4 (drop 59 file_skip))) = 57"
    by (simp add: file_skip_def del: group_loop.simps parse_group.simps)
  from container_content_end [OF g1 g2, of no_inflate None "Suc (Suc 0)" "ESPParser ''Empty.esp''"]
  have b: "parse_group no_inflate (Suc (Suc 0)) None \<lparr>data = file_empty_group, pos = 24\<rparr>
             (ESPParser ''Empty.esp'') =
           Some (Inr (\<lparr>data = file_empty_group, pos = 48\<rparr>,
                      (ESPParser ''Empty.esp'')\<lparr>group_count := 1\<rparr>))"
    by (simp add: ESPParser_def del: group_loop.simps parse_group.simps)
  from h1 h3 g1 a b show ?thesis by blast
qed

text \<open>
  C2 as stated fails in its second part. In the file below the container at offset 24
  declares 34 bytes, so its content ends at 58; the record that starts at 48 is decoded
  in full and stored, and the cursor is at 74 when \<^verbatim>\<open>_parse_group\<close> returns.
\<close>

theorem entry_read_past_content_end_counterexample:
  "group_header \<lparr>data = file_overrun, pos = 24\<rparr> =
     Inr ([0x4D, 0x49, 0x53, 0x43], 1, 10, \<lparr>data = file_overrun, pos = 48\<rparr>)
   \<and> parse_group no_inflate (Suc (Suc (Suc 0))) None \<lparr>data = file_overrun, pos = 24\<rparr>
       (ESPParser ''Over.esp'') =
     Some (Inr (\<lparr>data = file_overrun, pos = 74\<rparr>,
       (ESPParser ''Over.esp'')
         \<lparr>records := [(''MISC'', [\<lparr>rec_type = ''MISC'', data_size = 2, flags = 0, form_id = 2049,
                                   timestamp = 0, version_info = 0, subrecords = [],
                                   is_compressed = False, rec_keywords = []\<rparr>])],
          records_by_formid := [(2049, \<lparr>rec_type = ''MISC'', data_size = 2, flags = 0,
                                   form_id = 2049, timestamp = 0, version_info = 0,
                                   subrecords = [], is_compressed = False, rec_keywords = []\<rparr>)],
          group_count := 1, record_count := 1, type_counts := [(''MISC'', 1)]\<rparr>))"
  by (simp add: parser_eval reader_eval file_overrun_def)

subsection \<open>C5: decoding with an interest set\<close>

text \<open>
  C5, as amended. For a container of group type 0 whose 24-byte header is readable and
  whose label is not in a non-empty interest set, \<^verbatim>\<open>_parse_group\<close> returns without an error,
  with the cursor at the start of the header plus the declared size, and with a parser
  object that differs from the one before the call in \<^verbatim>\<open>group_count\<close> only: nothing of the
  content is decoded or stored, whatever its bytes are.
\<close>

theorem filtered_group_is_skipped:
  assumes "0 \<le> pos rd" and "24 \<le> remaining rd"
    and "sig_text (take 4 (drop (nat (pos rd)) (data rd))) = ''GRUP''"
    and "to_int32 (le_uint (take 4 (drop (nat (pos rd) + 12) (data rd)))) = 0"
    and "filtered_out ft (sig_text (take 4 (drop (nat (pos rd) + 8) (data rd))))"
  shows "parse_group cx (Suc fuel) ft rd ps =
           Some (Inr (rd\<lparr>pos := pos rd + int (le_uint (take 4 (drop (nat (pos rd) + 4) (data rd))))\<rparr>,
                      ps\<lparr>group_count := group_count ps + 1\<rparr>))"
  using group_header_ok [OF assms(1-3)] assms(4,5)
  by (simp add: skip_def Let_def)

theorem filtered_group_is_skipped_witness:
  "parse_group no_inflate (Suc 0) (Some {''KYWD''}) \<lparr>data = file_skip, pos = 24\<rparr>
       (ESPParser ''Skip.esp'') =
     Some (Inr (\<lparr>data = file_skip, pos = 55\<rparr>, (ESPParser ''Skip.esp'')\<lparr>group_count := 1\<rparr>))
   \<and> parse no_inflate (Suc (Suc (Suc (Suc (Suc (Suc 0)))))) ''Skip.esp'' file_skip
       (Some {''KYWD''}) =
     Some (Inr \<lparr>filename = ''Skip.esp'', version = [], num_records = 0, next_object_id = 0,
                masters = [], is_esm = False, is_esl = False, is_localized = False,
                records = [(''KYWD'', [\<lparr>rec_type = ''KYWD'', data_size = 9, flags = 0,
                             form_id = 2051, timestamp = 0, version_info = 0,
                             subrecords = [(''EDID'', [0x6B, 0x77, 0x00])],
                             is_compressed = False, rec_keywords = []\<rparr>])],
                records_by_formid = [(2051, \<lparr>rec_type = ''KYWD'', data_size = 9, flags = 0,
                             form_id = 2051, timestamp = 0, version_info = 0,
                             subrecords = [(''EDID'', [0x6B, 0x77, 0x00])],
                             is_compressed = False, rec_keywords = []\<rparr>)],
                group_count = 2, record_count = 1, compressed_count = 0,
                type_counts = [(''KYWD'', 1)]\<rparr>)"
proof -
  have h1: "0 \<le> pos \<lparr>data = file_skip, pos = 24\<rparr>" by simp
  have h2: "24 \<le> remaining \<lparr>data = file_skip, pos = 24\<rparr>"
    by (simp add: remaining_def file_skip_def)
  have h3: "sig_text (take 4 (drop (nat (pos \<lparr>data = file_skip, pos = 24\<rparr>))
              (data \<lparr>data = file_skip, pos = 24\<rparr>))) = ''GRUP''"
    by (simp add: file_skip_def sig_text_def decode_ascii_def char_of_def bit_Suc_0_iff)
  have h4: "to_int32 (le_uint (take 4 (drop (nat (pos \<lparr>data = file_skip, pos = 24\<rparr>) + 12)
              (data \<lparr>data = file_skip, pos = 24\<rparr>)))) = 0"
    by (simp add: file_skip_def to_int32_def)
  have h5: "filtered_out (Some {''KYWD''})
              (sig_text (take 4 (drop (nat (pos \<lparr>data = file_skip, pos = 24\<rparr>) + 8)
                 (data \<lparr>data = file_skip, pos = 24\<rparr>))))"
    by (simp add: filtered_out_def file_skip_def sig_text_def decode_ascii_def char_of_def
                  bit_Suc_0_iff)
  have run: "parse no_inflate (Suc (Suc (Suc (Suc (Suc (Suc 0)))))) ''Skip.esp'' file_skip
       (Some {''KYWD''}) =
     Some (Inr \<lparr>filename = ''Skip.esp'', version = [], num_records = 0, next_object_id = 0,
                masters = [], is_esm = False, is_esl = False, is_localized = False,
                records = [(''KYWD'', [\<lparr>rec_type = ''KYWD'', data_size = 9, flags = 0,
                             form_id = 2051, timestamp = 0, version_info = 0,
                             subrecords = [(''EDID'', [0x6B, 0x77, 0x00])],
                             is_compressed = False, rec_keywords = []\<rparr>])],
                records_by_formid = [(2051, \<lparr>rec_type = ''KYWD'', data_size = 9, flags = 0,
                             form_id = 2051, timestamp = 0, version_info = 0,
                             subrecords = [(''EDID'', [0x6B, 0x77, 0x00])],
                             is_compressed = False, rec_keywords = []\<rparr>)],
                group_count = 2, record_count = 1, compressed_count = 0,
                type_counts = [(''KYWD'', 1)]\<rparr>)"
    by (simp add: parser_eval reader_eval file_skip_def)
  from filtered_group_is_skipped [OF h1 h2 h3 h4 h5, of no_inflate 0 "ESPParser ''Skip.esp''"] run
  show ?thesis
    by (simp add: file_skip_def ESPParser_def del: parse_group.simps)
qed

text \<open>
  C5 as stated fails. The interest set is compared with the label of a container of group
  type 0 and with nothing else; \<^verbatim>\<open>_parse_record\<close> does not look at it. In the file below the
  container is labelled \<^verbatim>\<open>KYWD\<close> and holds a record of type \<^verbatim>\<open>WEAP\<close>: decoding with the
  interest set \<open>{KYWD}\<close> stores that record in both indexes.
\<close>

theorem interest_set_stores_other_kind_counterexample:
  "parse no_inflate (Suc (Suc (Suc (Suc (Suc 0))))) ''Mixed.esp'' file_mixed (Some {''KYWD''}) =
     Some (Inr \<lparr>filename = ''Mixed.esp'', version = [], num_records = 0, next_object_id = 0,
                masters = [], is_esm = False, is_esl = False, is_localized = False,
                records = [(''WEAP'', [\<lparr>rec_type = ''WEAP'', data_size = 0, flags = 0,
                             form_id = 2050, timestamp = 0, version_info = 0, subrecords = [],
                             is_compressed = False, rec_keywords = []\<rparr>])],
                records_by_formid = [(2050, \<lparr>rec_type = ''WEAP'', data_size = 0, flags = 0,
                             form_id = 2050, timestamp = 0, version_info = 0, subrecords = [],
                             is_compressed = False, rec_keywords = []\<rparr>)],
                group_count = 1, record_count = 1, compressed_count = 0,
                type_counts = [(''WEAP'', 1)]\<rparr>)"
  by (simp add: parser_eval reader_eval file_mixed_def)

end
